theory Spec2Isabelle
  imports Main "HOL-Library.AList"
begin

section \<open>Python values seen by \<open>flask_pydantic_spec/utils.py\<close>\<close>

text \<open>
  JSON-like data: schema fragments, response entries, the values of a multi-valued
  container. A Python \<open>dict\<close> whose iteration order matters is an association list.
\<close>

datatype json =
    JNull
  | JBool bool
  | JInt int
  | JStr string
  | JList "json list"
  | JDict "(string \<times> json) list"

text \<open>
  The exceptions the module can let through. \<open>KeyError\<close> carries the missing key,
  \<open>AttributeError\<close> the missing attribute; \<open>TypeError\<close> is what \<open>issubclass\<close>
  raises when its first argument is not a class.
\<close>

datatype py_error =
    KeyError string
  | AttributeError string
  | TypeError

text \<open>
  The objects a handler attribute or a hook argument can hold.
  \<^item> \<open>PyNone\<close>: Python's \<open>None\<close>.
  \<^item> \<open>PyClass b n\<close>: a class whose \<open>__name__\<close> is \<open>n\<close>; \<open>b\<close> tells whether it is a
    subclass of \<open>pydantic.BaseModel\<close>.
  \<^item> \<open>RequestSpec s\<close>: an instance of \<open>RequestBase\<close>; \<open>s\<close> is what its
    \<open>generate_spec()\<close> returns.
  \<^item> \<open>ResponseSpec s b\<close>: a response container; \<open>s\<close> is what its
    \<open>generate_spec()\<close> returns, \<open>b\<close> what its \<open>has_model()\<close> returns.
  \<^item> \<open>ValidationError n e\<close>: a validation error whose \<open>model.__name__\<close> is \<open>n\<close>
    and whose \<open>errors()\<close> returns \<open>e\<close>.
  \<^item> \<open>OtherObject t\<close>: any other instance (a number, a string, a list, a plain
    object): it is not a class and has none of the attributes above; \<open>t\<close> is its truth
    value (\<open>0\<close>, \<open>""\<close> and \<open>[]\<close> are false, \<open>5\<close> and \<open>object()\<close> are true).
  The classes \<open>RequestBase\<close>, \<open>Request\<close> and \<open>Response\<close> live in
  \<open>flask_pydantic_spec/types.py\<close>; what their methods return is carried by the
  object, as a parameter of the model.
\<close>

datatype pyobj =
    PyNone
  | PyClass bool string
  | RequestSpec "string \<rightharpoonup> json"
  | ResponseSpec "string \<rightharpoonup> json" bool
  | ValidationError string json
  | OtherObject bool

text \<open>
  A handler: the attributes attached to the function (its \<open>__dict__\<close>, read by name
  through \<open>hasattr\<close> and \<open>getattr\<close>) and the text \<open>inspect.getdoc\<close> returns for it.
\<close>

record handler =
  attrs :: "string \<rightharpoonup> pyobj"
  getdoc :: "string option"

definition hasattr :: "handler \<Rightarrow> string \<Rightarrow> bool" where
  "hasattr func x = (attrs func x \<noteq> None)"

text \<open>\<open>getattr(func, x, default)\<close>.\<close>

definition getattr :: "handler \<Rightarrow> string \<Rightarrow> pyobj \<Rightarrow> pyobj" where
  "getattr func x dflt = (case attrs func x of None \<Rightarrow> dflt | Some v \<Rightarrow> v)"

definition setattr :: "handler \<Rightarrow> string \<Rightarrow> pyobj \<Rightarrow> handler" where
  "setattr func x v = func\<lparr>attrs := (attrs func)(x \<mapsto> v)\<rparr>"

text \<open>\<open>obj.__name__\<close>: classes have a name, the other objects of the model do not.\<close>

fun dunder_name :: "pyobj \<Rightarrow> py_error + string" where
  "dunder_name (PyClass b n) = Inr n"
| "dunder_name obj = Inl (AttributeError ''__name__'')"

text \<open>\<open>obj.generate_spec()\<close> and \<open>obj.has_model()\<close>.\<close>

fun generate_spec :: "pyobj \<Rightarrow> py_error + (string \<rightharpoonup> json)" where
  "generate_spec (RequestSpec s) = Inr s"
| "generate_spec (ResponseSpec s b) = Inr s"
| "generate_spec obj = Inl (AttributeError ''generate_spec'')"

fun obj_has_model :: "pyobj \<Rightarrow> py_error + bool" where
  "obj_has_model (ResponseSpec s b) = Inr b"
| "obj_has_model obj = Inl (AttributeError ''has_model'')"

text \<open>\<open>isinstance(obj, RequestBase)\<close>.\<close>

fun isinstance_RequestBase :: "pyobj \<Rightarrow> bool" where
  "isinstance_RequestBase (RequestSpec s) = True"
| "isinstance_RequestBase obj = False"

text \<open>
  \<open>issubclass(obj, BaseModel)\<close>: Python raises \<open>TypeError\<close> (``issubclass() arg 1 must
  be a class'') when \<open>obj\<close> is not a class, \<open>None\<close> included.
\<close>

fun issubclass_BaseModel :: "pyobj \<Rightarrow> py_error + bool" where
  "issubclass_BaseModel (PyClass b n) = Inr b"
| "issubclass_BaseModel obj = Inl TypeError"

text \<open>
  Truth value of an object in an \<open>if\<close>: \<open>None\<close> is false, an instance of another kind
  has the truth value it carries, classes and the other objects of the model are true.
\<close>

fun truthy :: "pyobj \<Rightarrow> bool" where
  "truthy PyNone = False"
| "truthy (OtherObject t) = t"
| "truthy obj = True"

text \<open>\<open>str(code)\<close> for a Python \<open>int\<close>: decimal digits, with a minus sign below zero.\<close>

definition digit_char :: "nat \<Rightarrow> char" where
  "digit_char d = ''0123456789'' ! d"

fun str_nat :: "nat \<Rightarrow> string" where
  "str_nat n = (if n < 10 then [digit_char n] else str_nat (n div 10) @ [digit_char (n mod 10)])"

declare str_nat.simps [simp del]

definition str_int :: "int \<Rightarrow> string" where
  "str_int i = (if i < 0 then CHR ''-'' # str_nat (nat (- i)) else str_nat (nat i))"

section \<open>\<open>has_model\<close> and \<open>parse_resp\<close>\<close>

text \<open>
  \<open>has_model\<close> (lines 114-124): the first test looks at the attribute names
  \<open>query\<close>, \<open>json\<close> and \<open>headers\<close>; the second calls \<open>has_model()\<close> on the \<open>resp\<close>
  attribute when there is one.
\<close>

definition has_model :: "handler \<Rightarrow> py_error + bool" where
  "has_model func =
    (if list_ex (hasattr func) [''query'', ''json'', ''headers''] then Inr True
     else if hasattr func ''resp'' then
       (case obj_has_model (getattr func ''resp'' PyNone) of
          Inl e \<Rightarrow> Inl e
        | Inr b \<Rightarrow> if b then Inr True else Inr False)
     else Inr False)"

definition validation_error_entry :: json where
  "validation_error_entry = JDict [(''description'', JStr ''Validation Error'')]"

text \<open>
  \<open>parse_resp\<close> (lines 96-111). The default of \<open>getattr(func, "resp", {})\<close> is never
  used, since the call is under \<open>hasattr(func, "resp")\<close>. The condition
  \<open>str(code) not in responses and has_model(func)\<close> evaluates \<open>has_model\<close> only
  when the key is missing.
\<close>

definition parse_resp :: "handler \<Rightarrow> int \<Rightarrow> py_error + (string \<rightharpoonup> json)" where
  "parse_resp func code =
    (case (if hasattr func ''resp'' then generate_spec (getattr func ''resp'' PyNone)
           else Inr Map.empty) of
       Inl e \<Rightarrow> Inl e
     | Inr responses \<Rightarrow>
         if responses (str_int code) = None then
           (case has_model func of
              Inl e \<Rightarrow> Inl e
            | Inr b \<Rightarrow>
                if b then Inr (responses(str_int code \<mapsto> validation_error_entry))
                else Inr responses)
         else Inr responses)"

section \<open>\<open>parse_comments\<close>\<close>

text \<open>
  A Python \<open>str\<close> is a \<open>string\<close>; a \<open>char\<close> stands for a code point below 256.
  \<open>str.split("\n", 1)\<close> cuts at the first line feed and returns one or two pieces.
\<close>

definition newline :: char where
  "newline = CHR 0x0A"

fun partition1 :: "char \<Rightarrow> string \<Rightarrow> (string \<times> string) option" where
  "partition1 sep [] = None"
| "partition1 sep (c # cs) =
    (if c = sep then Some ([], cs)
     else map_option (\<lambda>(a, b). (c # a, b)) (partition1 sep cs))"

definition split1 :: "char \<Rightarrow> string \<Rightarrow> string list" where
  "split1 sep s = (case partition1 sep s of None \<Rightarrow> [s] | Some (a, b) \<Rightarrow> [a, b])"

text \<open>
  \<open>str.strip()\<close> removes the characters for which \<open>str.isspace\<close> holds from both
  ends. Below 256 these are the code points 9 to 13, 28 to 32, 133 and 160.
\<close>

definition isspace :: "char \<Rightarrow> bool" where
  "isspace c = (of_char c \<in> {9, 10, 11, 12, 13, 28, 29, 30, 31, 32, 133, 160 :: nat})"

definition strip :: "string \<Rightarrow> string" where
  "strip s = rev (dropWhile isspace (rev (dropWhile isspace s)))"

text \<open>\<open>parse_comments\<close> (lines 14-27); \<open>getdoc func\<close> is \<open>inspect.getdoc(func)\<close>.\<close>

definition parse_comments :: "handler \<Rightarrow> string option \<times> string option" where
  "parse_comments func =
    (case getdoc func of
       None \<Rightarrow> (None, None)
     | Some doc \<Rightarrow>
         (let docs = split1 newline doc in
          if length docs = 1 then (Some (docs ! 0), None)
          else (Some (docs ! 0), Some (strip (docs ! 1)))))"

section \<open>\<open>parse_request\<close>\<close>

text \<open>
  \<open>parse_request\<close> (lines 30-43). \<open>Request(request_body).generate_spec()\<close> belongs to
  \<open>types.py\<close>: the parameter \<open>request_spec\<close> gives its result for a model class.
\<close>

definition parse_request ::
  "(pyobj \<Rightarrow> string \<rightharpoonup> json) \<Rightarrow> handler \<Rightarrow> py_error + (string \<rightharpoonup> json)" where
  "parse_request request_spec func =
    (if hasattr func ''body'' then
       (let request_body = getattr func ''body'' PyNone in
        if isinstance_RequestBase request_body then generate_spec request_body
        else
          (case issubclass_BaseModel request_body of
             Inl e \<Rightarrow> Inl e
           | Inr b \<Rightarrow>
               if b then Inr (request_spec request_body) else Inr Map.empty))
     else Inr Map.empty)"

section \<open>\<open>parse_params\<close>\<close>

text \<open>
  An entry of the model registry: the two keys \<open>parse_params\<close> reads. \<open>None\<close> means
  that the key is missing: \<open>query["properties"]\<close> then raises \<open>KeyError\<close>, and
  \<open>query.get("required", [])\<close> gives the empty list.
\<close>

record model_schema =
  properties :: "(string \<times> json) list option"
  required :: "string list option"

definition param_descriptor :: "string \<Rightarrow> string \<Rightarrow> json \<Rightarrow> bool \<Rightarrow> json" where
  "param_descriptor name loc schema req =
    JDict [(''name'', JStr name), (''in'', JStr loc), (''schema'', schema),
           (''required'', JBool req)]"

text \<open>The \<open>for name, schema in ....items()\<close> loop, appending to \<open>params\<close>.\<close>

fun append_params ::
  "string \<Rightarrow> string list \<Rightarrow> (string \<times> json) list \<Rightarrow> json list \<Rightarrow> json list" where
  "append_params loc req [] params = params"
| "append_params loc req ((name, schema) # items) params =
    append_params loc req items (params @ [param_descriptor name loc schema (name \<in> set req)])"

text \<open>
  One of the three blocks of \<open>parse_params\<close>: they differ only in the attribute read
  and in the location written.
\<close>

definition params_block ::
  "string \<Rightarrow> string \<Rightarrow> handler \<Rightarrow> json list \<Rightarrow> (string \<rightharpoonup> model_schema)
    \<Rightarrow> py_error + json list" where
  "params_block attr loc func params models =
    (if hasattr func attr then
       (case dunder_name (getattr func attr PyNone) of
          Inl e \<Rightarrow> Inl e
        | Inr model_name \<Rightarrow>
            (case models model_name of
               None \<Rightarrow> Inl (KeyError model_name)
             | Some schema \<Rightarrow>
                 (case properties schema of
                    None \<Rightarrow> Inl (KeyError ''properties'')
                  | Some items \<Rightarrow>
                      Inr (append_params loc
                             (case required schema of None \<Rightarrow> [] | Some r \<Rightarrow> r)
                             items params))))
     else Inr params)"

text \<open>\<open>parse_params\<close> (lines 46-93): query, then headers, then cookies.\<close>

definition parse_params ::
  "handler \<Rightarrow> json list \<Rightarrow> (string \<rightharpoonup> model_schema) \<Rightarrow> py_error + json list" where
  "parse_params func params models =
    (case params_block ''query'' ''query'' func params models of
       Inl e \<Rightarrow> Inl e
     | Inr params1 \<Rightarrow>
         (case params_block ''headers'' ''header'' func params1 models of
            Inl e \<Rightarrow> Inl e
          | Inr params2 \<Rightarrow> params_block ''cookies'' ''cookie'' func params2 models))"

text \<open>The value under \<open>"in"\<close> of a descriptor, and the order of two locations in a list.\<close>

fun location :: "json \<Rightarrow> json option" where
  "location (JDict kvs) = map_of kvs ''in''"
| "location j = None"

definition listed_before :: "string \<Rightarrow> string \<Rightarrow> json list \<Rightarrow> bool" where
  "listed_before l1 l2 ds =
    (\<forall>i < length ds. \<forall>j < length ds.
       location (ds ! i) = Some (JStr l1) \<and> location (ds ! j) = Some (JStr l2) \<longrightarrow> i < j)"

section \<open>The default hooks\<close>

text \<open>
  A call of \<open>logger.info(msg, extra=...)\<close> adds a record to the log. The request and
  the response are returned with the log, so that a change to them would show.
\<close>

record log_record =
  message :: string
  extra :: "(string \<times> json) list"

fun error_model_name :: "pyobj \<Rightarrow> py_error + string" where
  "error_model_name (ValidationError n e) = Inr n"
| "error_model_name obj = Inl (AttributeError ''model'')"

fun error_errors :: "pyobj \<Rightarrow> py_error + json" where
  "error_errors (ValidationError n e) = Inr e"
| "error_errors obj = Inl (AttributeError ''errors'')"

definition log_validation_error ::
  "string \<Rightarrow> 'req \<Rightarrow> 'resp \<Rightarrow> pyobj \<Rightarrow> log_record list
    \<Rightarrow> py_error + 'req \<times> 'resp \<times> log_record list" where
  "log_validation_error msg req resp err records =
    (if truthy err then
       (case error_model_name err of
          Inl e \<Rightarrow> Inl e
        | Inr n \<Rightarrow>
            (case error_errors err of
               Inl e \<Rightarrow> Inl e
             | Inr es \<Rightarrow>
                 Inr (req, resp,
                      records @ [\<lparr>message = msg,
                                  extra = [(''spectree_model'', JStr n),
                                           (''spectree_validation'', es)]\<rparr>])))
     else Inr (req, resp, records))"

text \<open>\<open>default_before_handler\<close> (lines 138-157) and \<open>default_after_handler\<close> (160-179).\<close>

definition default_before_handler ::
  "'req \<Rightarrow> 'resp \<Rightarrow> pyobj \<Rightarrow> 'inst \<Rightarrow> log_record list
    \<Rightarrow> py_error + 'req \<times> 'resp \<times> log_record list" where
  "default_before_handler req resp req_validation_error inst records =
    log_validation_error ''Validation Error'' req resp req_validation_error records"

definition default_after_handler ::
  "'req \<Rightarrow> 'resp \<Rightarrow> pyobj \<Rightarrow> 'inst \<Rightarrow> log_record list
    \<Rightarrow> py_error + 'req \<times> 'resp \<times> log_record list" where
  "default_after_handler req resp resp_validation_error inst records =
    log_validation_error ''500 Response Validation Error'' req resp resp_validation_error records"

section \<open>\<open>parse_multi_dict\<close>\<close>

text \<open>
  \<open>input.to_dict(flat=False)\<close> is a \<open>dict\<close> from each key to the list of its
  values, in the order of the keys' first occurrence: an association list with distinct
  keys. \<open>result[key] = v\<close> is \<open>AList.update\<close>: it replaces the value of a key already
  there and adds a new key at the end.
\<close>

fun multi_dict_loop ::
  "(string \<times> json list) list \<Rightarrow> (string \<times> json) list \<Rightarrow> (string \<times> json) list" where
  "multi_dict_loop [] result = result"
| "multi_dict_loop ((key, val) # items) result =
    multi_dict_loop items
      (if length val = 1 then AList.update key (val ! 0) result
       else AList.update key (JList val) result)"

definition parse_multi_dict :: "(string \<times> json list) list \<Rightarrow> (string \<times> json) list" where
  "parse_multi_dict input = multi_dict_loop input []"

section \<open>Properties of \<open>has_model\<close> and \<open>parse_resp\<close>\<close>

lemma no_model_empty:
  assumes "attrs func ''query'' = None" and "attrs func ''json'' = None"
    and "attrs func ''headers'' = None" and "attrs func ''resp'' = None"
  shows "has_model func = Inr False" and "parse_resp func code = Inr Map.empty"
  using assms by (simp_all add: has_model_def parse_resp_def hasattr_def)

text \<open>
  C1. When the \<open>resp\<close> attribute is a response container whose \<open>generate_spec()\<close>
  has no key \<open>str(code)\<close>, and \<open>query\<close> or \<open>headers\<close> is attached, \<open>parse_resp\<close>
  returns that map with \<open>{"description": "Validation Error"}\<close> added under
  \<open>str(code)\<close>. When the map already has the key, \<open>parse_resp\<close> returns the map as
  it is, the explicit entry included.
\<close>

theorem parse_resp_validation_error:
  "(attrs func ''resp'' = Some (ResponseSpec spec hm) \<and> spec (str_int code) = None \<and>
      (hasattr func ''query'' \<or> hasattr func ''headers'')
      \<longrightarrow> parse_resp func code = Inr (spec(str_int code \<mapsto> validation_error_entry))) \<and>
   (attrs func ''resp'' = Some (ResponseSpec spec hm) \<and> spec (str_int code) = Some e
      \<longrightarrow> parse_resp func code = Inr spec)"
  by (auto simp: parse_resp_def has_model_def hasattr_def getattr_def)

theorem parse_resp_validation_error_witness:
  "parse_resp
     \<lparr>attrs = [''resp'' \<mapsto> ResponseSpec [''200'' \<mapsto> JDict [(''description'', JStr ''OK'')]] False,
               ''query'' \<mapsto> PyClass True ''Query''],
      getdoc = None\<rparr> 422
     = Inr [''200'' \<mapsto> JDict [(''description'', JStr ''OK'')],
            ''422'' \<mapsto> JDict [(''description'', JStr ''Validation Error'')]] \<and>
   parse_resp
     \<lparr>attrs = [''resp'' \<mapsto> ResponseSpec [''200'' \<mapsto> JDict [(''description'', JStr ''OK'')]] False,
               ''query'' \<mapsto> PyClass True ''Query''],
      getdoc = None\<rparr> 200
     = Inr [''200'' \<mapsto> JDict [(''description'', JStr ''OK'')]]"
  using
    parse_resp_validation_error
      [of "\<lparr>attrs = [''resp'' \<mapsto> ResponseSpec [''200'' \<mapsto> JDict [(''description'', JStr ''OK'')]] False,
                      ''query'' \<mapsto> PyClass True ''Query''],
             getdoc = None\<rparr>"
          "[''200'' \<mapsto> JDict [(''description'', JStr ''OK'')]]" False 422]
    parse_resp_validation_error
      [of "\<lparr>attrs = [''resp'' \<mapsto> ResponseSpec [''200'' \<mapsto> JDict [(''description'', JStr ''OK'')]] False,
                      ''query'' \<mapsto> PyClass True ''Query''],
             getdoc = None\<rparr>"
          "[''200'' \<mapsto> JDict [(''description'', JStr ''OK'')]]" False 200
          "JDict [(''description'', JStr ''OK'')]"]
  by (simp add: str_int_def str_nat.simps digit_char_def hasattr_def validation_error_entry_def)

text \<open>
  C2. The claim: a handler whose only attribute is \<open>body\<close> has a model, so
  \<open>parse_resp\<close> adds the validation-error entry. The code tests the attribute name
  \<open>json\<close>, not \<open>body\<close>: for a handler carrying only a \<open>body\<close> model class,
  \<open>has_model\<close> returns \<open>False\<close> and \<open>parse_resp\<close> returns the empty map.
\<close>

theorem has_model_body_only:
  "has_model \<lparr>attrs = [''body'' \<mapsto> PyClass True ''Model''], getdoc = None\<rparr> = Inr False \<and>
   parse_resp \<lparr>attrs = [''body'' \<mapsto> PyClass True ''Model''], getdoc = None\<rparr> 422
     = Inr Map.empty"
  by (simp add: no_model_empty)

text \<open>
  C10. A handler whose only attribute is \<open>cookies\<close>: \<open>has_model\<close> returns \<open>False\<close>
  and \<open>parse_resp\<close> returns the empty map, for every status code.
\<close>

theorem has_model_cookies_only:
  assumes "dom (attrs func) = {''cookies''}"
  shows "has_model func = Inr False \<and> parse_resp func code = Inr Map.empty"
proof -
  have "attrs func x = None" if "x \<noteq> ''cookies''" for x
    using assms that by (metis domIff singletonD)
  then show ?thesis by (simp add: no_model_empty)
qed

theorem has_model_cookies_only_witness:
  "has_model \<lparr>attrs = [''cookies'' \<mapsto> PyClass True ''Cookies''], getdoc = None\<rparr> = Inr False \<and>
   parse_resp \<lparr>attrs = [''cookies'' \<mapsto> PyClass True ''Cookies''], getdoc = None\<rparr> 422
     = Inr Map.empty"
  using has_model_cookies_only
    [of "\<lparr>attrs = [''cookies'' \<mapsto> PyClass True ''Cookies''], getdoc = None\<rparr>" 422]
  by simp

section \<open>Properties of \<open>parse_request\<close>\<close>

text \<open>A \<open>body\<close> that is a class, but not a model class, gives the empty mapping.\<close>

lemma parse_request_other_class:
  "attrs func ''body'' = Some (PyClass False n) \<Longrightarrow> parse_request request_spec func = Inr Map.empty"
  by (simp add: parse_request_def hasattr_def getattr_def)

text \<open>
  C3. The claim: a \<open>body\<close> that is \<open>None\<close>, or any object that is neither a
  \<open>RequestBase\<close> instance nor a model class, gives the empty mapping and no exception.
  The code reaches \<open>issubclass(request_body, BaseModel)\<close> with an object that is not a
  class, which raises \<open>TypeError\<close>: so it does for \<open>None\<close> and for any other instance.
\<close>

theorem parse_request_body_not_a_class:
  "parse_request request_spec \<lparr>attrs = [''body'' \<mapsto> PyNone], getdoc = None\<rparr> = Inl TypeError \<and>
   parse_request request_spec \<lparr>attrs = [''body'' \<mapsto> OtherObject t], getdoc = None\<rparr> = Inl TypeError"
  by (simp add: parse_request_def hasattr_def getattr_def)

section \<open>Properties of the default hooks\<close>

text \<open>
  C9. With \<open>None\<close> as the validation error, \<open>default_before_handler\<close> and
  \<open>default_after_handler\<close> return without an exception, add no log record, and leave
  the request and the response as they were, whatever the request, the response and the
  instance are.
\<close>

theorem default_handlers_no_error:
  "default_before_handler req resp PyNone inst records = Inr (req, resp, records) \<and>
   default_after_handler req resp PyNone inst records = Inr (req, resp, records)"
  by (simp add: default_before_handler_def default_after_handler_def log_validation_error_def)

text \<open>
  An error object that is not \<open>None\<close> but false in an \<open>if\<close> (\<open>0\<close>, \<open>""\<close>, \<open>[]\<close>)
  takes the same branch; an object that is true and carries no \<open>model\<close> makes the hook
  raise \<open>AttributeError\<close>.
\<close>

lemma default_handlers_falsy_error:
  "default_before_handler req resp (OtherObject False) inst records = Inr (req, resp, records) \<and>
   default_after_handler req resp (OtherObject False) inst records = Inr (req, resp, records)"
  by (simp add: default_before_handler_def default_after_handler_def log_validation_error_def)

lemma default_handlers_other_error:
  "default_before_handler req resp (OtherObject True) inst records = Inl (AttributeError ''model'') \<and>
   default_after_handler req resp (OtherObject True) inst records = Inl (AttributeError ''model'')"
  by (simp add: default_before_handler_def default_after_handler_def log_validation_error_def)

section \<open>Properties of \<open>parse_params\<close>\<close>

lemma append_params_eq:
  "append_params loc req items params =
     params @ map (\<lambda>(name, schema). param_descriptor name loc schema (name \<in> set req)) items"
  by (induction items arbitrary: params) auto

lemma location_param_descriptor [simp]:
  "location (param_descriptor name loc schema req) = Some (JStr loc)"
  by (simp add: param_descriptor_def)

lemma params_block_Inr:
  assumes "params_block attr loc func params models = Inr r"
  shows "\<exists>new. r = params @ new \<and> (\<forall>d \<in> set new. location d = Some (JStr loc))"
  using assms
  by (auto simp: params_block_def append_params_eq split: if_splits sum.splits option.splits)

lemma params_block_absent:
  "attrs func attr = None \<Longrightarrow> params_block attr loc func params models = Inr params"
  by (simp add: params_block_def hasattr_def)

lemma params_block_missing_model:
  assumes "attrs func attr = Some (PyClass m model_name)" and "models model_name = None"
  shows "params_block attr loc func params models = Inl (KeyError model_name)"
  using assms by (simp add: params_block_def hasattr_def getattr_def)

lemma params_block_registered:
  assumes "attrs func attr = Some (PyClass m n)" and "models n = Some schema"
    and "properties schema = Some items" and "required schema = Some req"
  shows "params_block attr loc func params models =
           Inr (params @ map (\<lambda>(name, s). param_descriptor name loc s (name \<in> set req)) items)"
  using assms by (simp add: params_block_def hasattr_def getattr_def append_params_eq)

lemma listed_before_append:
  assumes "\<forall>d \<in> set xs. location d \<noteq> Some (JStr l2)"
    and "\<forall>d \<in> set ys. location d \<noteq> Some (JStr l1)"
  shows "listed_before l1 l2 (xs @ ys)"
  unfolding listed_before_def
proof (intro allI impI)
  fix i j
  assume i: "i < length (xs @ ys)" and j: "j < length (xs @ ys)"
    and loc: "location ((xs @ ys) ! i) = Some (JStr l1) \<and> location ((xs @ ys) ! j) = Some (JStr l2)"
  have "i < length xs"
  proof (rule ccontr)
    assume "\<not> i < length xs"
    then have "(xs @ ys) ! i \<in> set ys" using i by (simp add: nth_append)
    then show False using assms(2) loc by blast
  qed
  moreover have "\<not> j < length xs"
  proof
    assume "j < length xs"
    then have "(xs @ ys) ! j \<in> set xs" by (simp add: nth_append)
    then show False using assms(1) loc by blast
  qed
  ultimately show "i < j" by simp
qed

lemma parse_params_Inr:
  assumes "parse_params func params models = Inr r"
  shows "\<exists>q h c. r = params @ q @ h @ c \<and>
           (\<forall>d \<in> set q. location d = Some (JStr ''query'')) \<and>
           (\<forall>d \<in> set h. location d = Some (JStr ''header'')) \<and>
           (\<forall>d \<in> set c. location d = Some (JStr ''cookie''))"
proof -
  from assms obtain p1 p2 where
    b1: "params_block ''query'' ''query'' func params models = Inr p1" and
    b2: "params_block ''headers'' ''header'' func p1 models = Inr p2" and
    b3: "params_block ''cookies'' ''cookie'' func p2 models = Inr r"
    by (auto simp: parse_params_def split: sum.splits)
  from params_block_Inr[OF b1] obtain q where
    q: "p1 = params @ q" "\<forall>d \<in> set q. location d = Some (JStr ''query'')" by blast
  from params_block_Inr[OF b2] obtain h where
    h: "p2 = p1 @ h" "\<forall>d \<in> set h. location d = Some (JStr ''header'')" by blast
  from params_block_Inr[OF b3] obtain c where
    c: "r = p2 @ c" "\<forall>d \<in> set c. location d = Some (JStr ''cookie'')" by blast
  show ?thesis using q h c by auto
qed

text \<open>
  The attributes of a handler are read by name: attaching two of them in the other
  order gives the same handler, hence the same parameters.
\<close>

lemma setattr_commute:
  "x \<noteq> y \<Longrightarrow> setattr (setattr func x u) y v = setattr (setattr func y v) x u"
  by (simp add: setattr_def fun_upd_twist)

text \<open>
  C4, as the claim states it: in the sequence \<open>parse_params\<close> returns, every \<open>query\<close>
  descriptor comes before every \<open>header\<close> descriptor, and every \<open>header\<close> descriptor
  before every \<open>cookie\<close> descriptor. The returned sequence starts with the accumulator
  the caller passed: with a \<open>cookie\<close> descriptor already in it, that descriptor comes
  before the \<open>query\<close> descriptor of a handler carrying all three attributes.
\<close>

theorem parse_params_order_counterexample:
  "parse_params
     \<lparr>attrs = [''query'' \<mapsto> PyClass True ''Q'', ''headers'' \<mapsto> PyClass True ''H'',
               ''cookies'' \<mapsto> PyClass True ''C''],
      getdoc = None\<rparr>
     [param_descriptor ''sid'' ''cookie'' JNull False]
     [''Q'' \<mapsto> \<lparr>properties = Some [(''q'', JNull)], required = None\<rparr>,
      ''H'' \<mapsto> \<lparr>properties = Some [(''h'', JNull)], required = None\<rparr>,
      ''C'' \<mapsto> \<lparr>properties = Some [(''c'', JNull)], required = None\<rparr>]
   = Inr
     [param_descriptor ''sid'' ''cookie'' JNull False,
      param_descriptor ''q'' ''query'' JNull False,
      param_descriptor ''h'' ''header'' JNull False,
      param_descriptor ''c'' ''cookie'' JNull False] \<and>
   \<not> listed_before ''query'' ''cookie''
     [param_descriptor ''sid'' ''cookie'' JNull False,
      param_descriptor ''q'' ''query'' JNull False,
      param_descriptor ''h'' ''header'' JNull False,
      param_descriptor ''c'' ''cookie'' JNull False]"
proof
  show "parse_params
     \<lparr>attrs = [''query'' \<mapsto> PyClass True ''Q'', ''headers'' \<mapsto> PyClass True ''H'',
               ''cookies'' \<mapsto> PyClass True ''C''],
      getdoc = None\<rparr>
     [param_descriptor ''sid'' ''cookie'' JNull False]
     [''Q'' \<mapsto> \<lparr>properties = Some [(''q'', JNull)], required = None\<rparr>,
      ''H'' \<mapsto> \<lparr>properties = Some [(''h'', JNull)], required = None\<rparr>,
      ''C'' \<mapsto> \<lparr>properties = Some [(''c'', JNull)], required = None\<rparr>]
   = Inr
     [param_descriptor ''sid'' ''cookie'' JNull False,
      param_descriptor ''q'' ''query'' JNull False,
      param_descriptor ''h'' ''header'' JNull False,
      param_descriptor ''c'' ''cookie'' JNull False]"
    by (simp add: parse_params_def params_block_def hasattr_def getattr_def)
next
  show "\<not> listed_before ''query'' ''cookie''
     [param_descriptor ''sid'' ''cookie'' JNull False,
      param_descriptor ''q'' ''query'' JNull False,
      param_descriptor ''h'' ''header'' JNull False,
      param_descriptor ''c'' ''cookie'' JNull False]"
  proof
    assume a: "listed_before ''query'' ''cookie''
     [param_descriptor ''sid'' ''cookie'' JNull False,
      param_descriptor ''q'' ''query'' JNull False,
      param_descriptor ''h'' ''header'' JNull False,
      param_descriptor ''c'' ''cookie'' JNull False]"
    show False
      using a [unfolded listed_before_def, rule_format, of 1 0] by simp
  qed
qed

text \<open>
  C4, amended. Whenever \<open>parse_params\<close> returns, the result is the accumulator followed
  by the descriptors it appended, and among the appended descriptors every \<open>query\<close> one
  comes before every \<open>header\<close> one and every \<open>header\<close> one before every \<open>cookie\<close>
  one. When the accumulator holds no \<open>header\<close> and no \<open>cookie\<close> descriptor, the same
  order holds in the whole returned sequence. This holds for every handler, whichever
  attributes it carries and in whatever order they were attached.
\<close>

theorem parse_params_order:
  assumes "parse_params func params models = Inr r"
  shows "\<exists>new. r = params @ new \<and>
           listed_before ''query'' ''header'' new \<and>
           listed_before ''header'' ''cookie'' new \<and>
           listed_before ''query'' ''cookie'' new \<and>
           ((\<forall>d \<in> set params. location d \<noteq> Some (JStr ''header'') \<and>
                               location d \<noteq> Some (JStr ''cookie''))
            \<longrightarrow> listed_before ''query'' ''header'' r \<and>
                listed_before ''header'' ''cookie'' r \<and>
                listed_before ''query'' ''cookie'' r)"
proof -
  from parse_params_Inr[OF assms] obtain q h c where
    r: "r = params @ q @ h @ c" and
    q: "\<forall>d \<in> set q. location d = Some (JStr ''query'')" and
    h: "\<forall>d \<in> set h. location d = Some (JStr ''header'')" and
    c: "\<forall>d \<in> set c. location d = Some (JStr ''cookie'')" by blast
  have n1: "listed_before ''query'' ''header'' (q @ (h @ c))"
    using q h c by (intro listed_before_append) auto
  have n2: "listed_before ''header'' ''cookie'' ((q @ h) @ c)"
    using q h c by (intro listed_before_append) auto
  have n3: "listed_before ''query'' ''cookie'' (q @ (h @ c))"
    using q h c by (intro listed_before_append) auto
  have w: "listed_before ''query'' ''header'' r \<and> listed_before ''header'' ''cookie'' r \<and>
           listed_before ''query'' ''cookie'' r"
    if p: "\<forall>d \<in> set params. location d \<noteq> Some (JStr ''header'') \<and>
                               location d \<noteq> Some (JStr ''cookie'')"
  proof -
    have "listed_before ''query'' ''header'' ((params @ q) @ (h @ c))"
      using p q h c by (intro listed_before_append) auto
    moreover have "listed_before ''header'' ''cookie'' ((params @ q @ h) @ c)"
      using p q h c by (intro listed_before_append) auto
    moreover have "listed_before ''query'' ''cookie'' ((params @ q) @ (h @ c))"
      using p q h c by (intro listed_before_append) auto
    ultimately show ?thesis using r by simp
  qed
  show ?thesis
    using r n1 n2 n3 w by (intro exI[of _ "q @ h @ c"]) simp
qed

theorem parse_params_order_witness:
  "parse_params
     \<lparr>attrs = [''query'' \<mapsto> PyClass True ''Q'', ''headers'' \<mapsto> PyClass True ''H'',
               ''cookies'' \<mapsto> PyClass True ''C''],
      getdoc = None\<rparr>
     []
     [''Q'' \<mapsto> \<lparr>properties = Some [(''q'', JNull)], required = None\<rparr>,
      ''H'' \<mapsto> \<lparr>properties = Some [(''h'', JNull)], required = None\<rparr>,
      ''C'' \<mapsto> \<lparr>properties = Some [(''c'', JNull)], required = None\<rparr>]
   = Inr
     [param_descriptor ''q'' ''query'' JNull False,
      param_descriptor ''h'' ''header'' JNull False,
      param_descriptor ''c'' ''cookie'' JNull False] \<and>
   listed_before ''query'' ''header''
     [param_descriptor ''q'' ''query'' JNull False,
      param_descriptor ''h'' ''header'' JNull False,
      param_descriptor ''c'' ''cookie'' JNull False] \<and>
   listed_before ''header'' ''cookie''
     [param_descriptor ''q'' ''query'' JNull False,
      param_descriptor ''h'' ''header'' JNull False,
      param_descriptor ''c'' ''cookie'' JNull False] \<and>
   listed_before ''query'' ''cookie''
     [param_descriptor ''q'' ''query'' JNull False,
      param_descriptor ''h'' ''header'' JNull False,
      param_descriptor ''c'' ''cookie'' JNull False]"
proof -
  have e: "parse_params
     \<lparr>attrs = [''query'' \<mapsto> PyClass True ''Q'', ''headers'' \<mapsto> PyClass True ''H'',
               ''cookies'' \<mapsto> PyClass True ''C''],
      getdoc = None\<rparr>
     []
     [''Q'' \<mapsto> \<lparr>properties = Some [(''q'', JNull)], required = None\<rparr>,
      ''H'' \<mapsto> \<lparr>properties = Some [(''h'', JNull)], required = None\<rparr>,
      ''C'' \<mapsto> \<lparr>properties = Some [(''c'', JNull)], required = None\<rparr>]
   = Inr
     [param_descriptor ''q'' ''query'' JNull False,
      param_descriptor ''h'' ''header'' JNull False,
      param_descriptor ''c'' ''cookie'' JNull False]"
    by (simp add: parse_params_def params_block_def hasattr_def getattr_def)
  show ?thesis
    using e parse_params_order [OF e] by simp
qed

text \<open>
  C5. The \<open>query\<close> attribute is a class registered with the two properties \<open>a\<close> and
  \<open>b\<close>, listed in either order by the properties mapping, and a required list that
  holds \<open>a\<close> and not \<open>b\<close>. Then \<open>parse_params\<close> appends to the accumulator one
  descriptor for each property, in the iteration order of the mapping: each has location
  \<open>query\<close> and the schema of its property, the one of \<open>a\<close> is required and the one of
  \<open>b\<close> is not. It appends no other \<open>query\<close> descriptor: with no \<open>headers\<close> and no
  \<open>cookies\<close> attached these two are all it appends, and in every case what follows
  them has another location.
\<close>

theorem parse_params_query_fields:
  assumes "attrs func ''query'' = Some (PyClass m n)" and "models n = Some schema"
    and "properties schema = Some items"
    and "items = [(a, sa), (b, sb)] \<or> items = [(b, sb), (a, sa)]"
    and "required schema = Some req" and "a \<in> set req" and "b \<notin> set req"
  shows "(attrs func ''headers'' = None \<and> attrs func ''cookies'' = None \<longrightarrow>
            parse_params func params models =
              Inr (params @
                   map (\<lambda>(name, s). param_descriptor name ''query'' s (name = a)) items)) \<and>
         (\<forall>r. parse_params func params models = Inr r \<longrightarrow>
            (\<exists>rest. r = params @
                         map (\<lambda>(name, s). param_descriptor name ''query'' s (name = a)) items @
                         rest \<and>
                    (\<forall>d \<in> set rest. location d \<noteq> Some (JStr ''query''))))"
proof -
  let ?two = "map (\<lambda>(name, s). param_descriptor name ''query'' s (name = a)) items"
  have ab: "a \<noteq> b" using assms(6,7) by auto
  have flags: "map (\<lambda>(name, s). param_descriptor name ''query'' s (name \<in> set req)) items = ?two"
    using assms(4,6,7) ab by auto
  have q: "params_block ''query'' ''query'' func params models = Inr (params @ ?two)"
    using params_block_registered
      [where models = models, OF assms(1) assms(2) assms(3) assms(5), of "''query''" params]
      flags by simp
  have one: "parse_params func params models = Inr (params @ ?two)"
    if "attrs func ''headers'' = None" and "attrs func ''cookies'' = None"
    using q that by (simp add: parse_params_def params_block_absent)
  have two: "\<exists>rest. r = params @ ?two @ rest \<and> (\<forall>d \<in> set rest. location d \<noteq> Some (JStr ''query''))"
    if r: "parse_params func params models = Inr r" for r
  proof -
    from r q obtain p2 where
      b2: "params_block ''headers'' ''header'' func (params @ ?two) models = Inr p2" and
      b3: "params_block ''cookies'' ''cookie'' func p2 models = Inr r"
      by (auto simp: parse_params_def split: sum.splits)
    from params_block_Inr[OF b2] obtain h where
      h: "p2 = (params @ ?two) @ h" "\<forall>d \<in> set h. location d = Some (JStr ''header'')" by blast
    from params_block_Inr[OF b3] obtain c where
      c: "r = p2 @ c" "\<forall>d \<in> set c. location d = Some (JStr ''cookie'')" by blast
    show ?thesis using h c by (intro exI[of _ "h @ c"]) auto
  qed
  show ?thesis using one two by blast
qed

theorem parse_params_query_fields_witness:
  "parse_params \<lparr>attrs = [''query'' \<mapsto> PyClass True ''Query''], getdoc = None\<rparr> []
     [''Query'' \<mapsto> \<lparr>properties = Some [(''a'', JDict [(''type'', JStr ''string'')]),
                                          (''b'', JDict [(''type'', JStr ''integer'')])],
                      required = Some [''a'']\<rparr>]
   = Inr [JDict [(''name'', JStr ''a''), (''in'', JStr ''query''),
                 (''schema'', JDict [(''type'', JStr ''string'')]), (''required'', JBool True)],
          JDict [(''name'', JStr ''b''), (''in'', JStr ''query''),
                 (''schema'', JDict [(''type'', JStr ''integer'')]), (''required'', JBool False)]] \<and>
   parse_params \<lparr>attrs = [''query'' \<mapsto> PyClass True ''Query''], getdoc = None\<rparr> []
     [''Query'' \<mapsto> \<lparr>properties = Some [(''b'', JDict [(''type'', JStr ''integer'')]),
                                          (''a'', JDict [(''type'', JStr ''string'')])],
                      required = Some [''a'']\<rparr>]
   = Inr [JDict [(''name'', JStr ''b''), (''in'', JStr ''query''),
                 (''schema'', JDict [(''type'', JStr ''integer'')]), (''required'', JBool False)],
          JDict [(''name'', JStr ''a''), (''in'', JStr ''query''),
                 (''schema'', JDict [(''type'', JStr ''string'')]), (''required'', JBool True)]]"
proof -
  have ab: "parse_params \<lparr>attrs = [''query'' \<mapsto> PyClass True ''Query''], getdoc = None\<rparr> []
     [''Query'' \<mapsto> \<lparr>properties = Some [(''a'', JDict [(''type'', JStr ''string'')]),
                                          (''b'', JDict [(''type'', JStr ''integer'')])],
                      required = Some [''a'']\<rparr>]
   = Inr [JDict [(''name'', JStr ''a''), (''in'', JStr ''query''),
                 (''schema'', JDict [(''type'', JStr ''string'')]), (''required'', JBool True)],
          JDict [(''name'', JStr ''b''), (''in'', JStr ''query''),
                 (''schema'', JDict [(''type'', JStr ''integer'')]), (''required'', JBool False)]]"
    using parse_params_query_fields
      [of "\<lparr>attrs = [''query'' \<mapsto> PyClass True ''Query''], getdoc = None\<rparr>" True "''Query''"
          "[''Query'' \<mapsto> \<lparr>properties = Some [(''a'', JDict [(''type'', JStr ''string'')]),
                                            (''b'', JDict [(''type'', JStr ''integer'')])],
                        required = Some [''a'']\<rparr>]"
          "\<lparr>properties = Some [(''a'', JDict [(''type'', JStr ''string'')]),
                               (''b'', JDict [(''type'', JStr ''integer'')])],
            required = Some [''a'']\<rparr>"
          "[(''a'', JDict [(''type'', JStr ''string'')]), (''b'', JDict [(''type'', JStr ''integer'')])]"
          "''a''" "JDict [(''type'', JStr ''string'')]" "''b''" "JDict [(''type'', JStr ''integer'')]"
          "[''a'']" "[]"]
    by (simp add: param_descriptor_def)
  have ba: "parse_params \<lparr>attrs = [''query'' \<mapsto> PyClass True ''Query''], getdoc = None\<rparr> []
     [''Query'' \<mapsto> \<lparr>properties = Some [(''b'', JDict [(''type'', JStr ''integer'')]),
                                          (''a'', JDict [(''type'', JStr ''string'')])],
                      required = Some [''a'']\<rparr>]
   = Inr [JDict [(''name'', JStr ''b''), (''in'', JStr ''query''),
                 (''schema'', JDict [(''type'', JStr ''integer'')]), (''required'', JBool False)],
          JDict [(''name'', JStr ''a''), (''in'', JStr ''query''),
                 (''schema'', JDict [(''type'', JStr ''string'')]), (''required'', JBool True)]]"
    using parse_params_query_fields
      [of "\<lparr>attrs = [''query'' \<mapsto> PyClass True ''Query''], getdoc = None\<rparr>" True "''Query''"
          "[''Query'' \<mapsto> \<lparr>properties = Some [(''b'', JDict [(''type'', JStr ''integer'')]),
                                            (''a'', JDict [(''type'', JStr ''string'')])],
                        required = Some [''a'']\<rparr>]"
          "\<lparr>properties = Some [(''b'', JDict [(''type'', JStr ''integer'')]),
                               (''a'', JDict [(''type'', JStr ''string'')])],
            required = Some [''a'']\<rparr>"
          "[(''b'', JDict [(''type'', JStr ''integer'')]), (''a'', JDict [(''type'', JStr ''string'')])]"
          "''a''" "JDict [(''type'', JStr ''string'')]" "''b''" "JDict [(''type'', JStr ''integer'')]"
          "[''a'']" "[]"]
    by (simp add: param_descriptor_def)
  show ?thesis using ab ba by simp
qed

text \<open>
  C8. One of \<open>query\<close>, \<open>headers\<close>, \<open>cookies\<close> is a class whose name is not a key of
  the registry. Then \<open>parse_params\<close> raises: it returns no parameter list. When that
  attribute is the only one attached, the exception is the \<open>KeyError\<close> of the lookup.
\<close>

theorem parse_params_missing_model:
  assumes "attr \<in> {''query'', ''headers'', ''cookies''}"
    and "attrs func attr = Some (PyClass m model_name)"
    and "models model_name = None"
  shows "(\<exists>e. parse_params func params models = Inl e) \<and>
         ((\<forall>x. x \<noteq> attr \<longrightarrow> attrs func x = None) \<longrightarrow>
            parse_params func params models = Inl (KeyError model_name))"
proof -
  have raises: "\<exists>e. parse_params func params models = Inl e"
  proof (cases "params_block ''query'' ''query'' func params models")
    case (Inl e)
    then show ?thesis by (simp add: parse_params_def)
  next
    case q: (Inr p1)
    show ?thesis
    proof (cases "params_block ''headers'' ''header'' func p1 models")
      case (Inl e)
      then show ?thesis using q by (simp add: parse_params_def)
    next
      case h: (Inr p2)
      have "attr \<noteq> ''query''"
        using q params_block_missing_model[where models = models, OF assms(2,3), of "''query''" params] by auto
      moreover have "attr \<noteq> ''headers''"
        using h params_block_missing_model[where models = models, OF assms(2,3), of "''header''" p1] by auto
      ultimately have "attr = ''cookies''" using assms(1) by simp
      then show ?thesis
        using q h params_block_missing_model[where models = models, OF assms(2,3), of "''cookie''" p2]
        by (simp add: parse_params_def)
    qed
  qed
  have only: "parse_params func params models = Inl (KeyError model_name)"
    if o: "\<forall>x. x \<noteq> attr \<longrightarrow> attrs func x = None"
  proof -
    consider "attr = ''query''" | "attr = ''headers''" | "attr = ''cookies''"
      using assms(1) by auto
    then show ?thesis
    proof cases
      case 1
      then show ?thesis
        using params_block_missing_model[where models = models, OF assms(2,3)] by (simp add: parse_params_def)
    next
      case 2
      then have "attrs func ''query'' = None" using o by simp
      then show ?thesis
        using 2 params_block_missing_model[where models = models, OF assms(2,3)]
        by (simp add: parse_params_def params_block_absent)
    next
      case 3
      then have "attrs func ''query'' = None" "attrs func ''headers'' = None" using o by simp_all
      then show ?thesis
        using 3 params_block_missing_model[where models = models, OF assms(2,3)]
        by (simp add: parse_params_def params_block_absent)
    qed
  qed
  show ?thesis using raises only by blast
qed

theorem parse_params_missing_model_witness:
  "parse_params \<lparr>attrs = [''headers'' \<mapsto> PyClass True ''Headers''], getdoc = None\<rparr> []
     [''Query'' \<mapsto> \<lparr>properties = Some [(''a'', JNull)], required = None\<rparr>]
   = Inl (KeyError ''Headers'')"
  using parse_params_missing_model
    [of "''headers''" "\<lparr>attrs = [''headers'' \<mapsto> PyClass True ''Headers''], getdoc = None\<rparr>"
        True "''Headers''" "[''Query'' \<mapsto> \<lparr>properties = Some [(''a'', JNull)], required = None\<rparr>]" "[]"]
  by simp

section \<open>Properties of \<open>parse_multi_dict\<close>\<close>

lemma update_fresh:
  "k \<notin> fst ` set al \<Longrightarrow> AList.update k v al = al @ [(k, v)]"
  by (induction al) auto

lemma multi_dict_loop_distinct:
  assumes "distinct (map fst items)" and "fst ` set items \<inter> fst ` set result = {}"
  shows "multi_dict_loop items result =
           result @ map (\<lambda>(k, vs). (k, if length vs = 1 then vs ! 0 else JList vs)) items"
  using assms
proof (induction items arbitrary: result)
  case Nil
  then show ?case by simp
next
  case (Cons p items)
  obtain key val where p: "p = (key, val)" by (cases p)
  let ?v = "if length val = 1 then val ! 0 else JList val"
  have fresh: "key \<notin> fst ` set result" using Cons.prems(2) p by auto
  have step: "multi_dict_loop (p # items) result = multi_dict_loop items (result @ [(key, ?v)])"
    using p fresh by (simp add: update_fresh)
  have d: "distinct (map fst items)" using Cons.prems(1) by simp
  have disj: "fst ` set items \<inter> fst ` set (result @ [(key, ?v)]) = {}"
    using Cons.prems p by auto
  show ?case
    unfolding step using Cons.IH[OF d disj] p by simp
qed

lemma parse_multi_dict_eq:
  "distinct (map fst input) \<Longrightarrow>
     parse_multi_dict input =
       map (\<lambda>(k, vs). (k, if length vs = 1 then vs ! 0 else JList vs)) input"
  by (simp add: parse_multi_dict_def multi_dict_loop_distinct)

lemma map_of_map_distinct:
  "distinct (map fst xs) \<Longrightarrow> (k, v) \<in> set xs \<Longrightarrow>
     map_of (map (\<lambda>(k, v). (k, f v)) xs) k = Some (f v)"
  by (induction xs) (auto simp: rev_image_eqI)

text \<open>
  C6. The input is the dictionary of value lists of a multi-valued container, its keys
  distinct. \<open>parse_multi_dict\<close> is a total function: it has no error result. Its
  result has the keys of the input, each once and in the same order; a key with the one
  value \<open>v\<close> maps to \<open>v\<close>; a key whose list has another length (two or more values,
  or none) maps to the whole list, in order; the empty container gives the empty
  mapping.
\<close>

theorem parse_multi_dict_flattens:
  assumes "distinct (map fst input)"
  shows "map fst (parse_multi_dict input) = map fst input \<and>
         (\<forall>k v. (k, [v]) \<in> set input \<longrightarrow> map_of (parse_multi_dict input) k = Some v) \<and>
         (\<forall>k vs. (k, vs) \<in> set input \<and> length vs \<noteq> 1 \<longrightarrow>
            map_of (parse_multi_dict input) k = Some (JList vs)) \<and>
         parse_multi_dict [] = []"
proof -
  let ?f = "\<lambda>vs. if length vs = 1 then vs ! 0 else JList vs"
  have eq: "parse_multi_dict input = map (\<lambda>(k, vs). (k, ?f vs)) input"
    using assms by (rule parse_multi_dict_eq)
  have keys: "map fst (parse_multi_dict input) = map fst input"
    unfolding eq by (induction input) auto
  have val: "map_of (parse_multi_dict input) k = Some (?f vs)" if "(k, vs) \<in> set input" for k vs
    unfolding eq using assms that by (rule map_of_map_distinct)
  have one: "map_of (parse_multi_dict input) k = Some v" if "(k, [v]) \<in> set input" for k v
    using val[OF that] by simp
  have more: "map_of (parse_multi_dict input) k = Some (JList vs)"
    if "(k, vs) \<in> set input" and "length vs \<noteq> 1" for k vs
    using val[OF that(1)] that(2) by simp
  have "parse_multi_dict [] = []" by (simp add: parse_multi_dict_def)
  then show ?thesis using keys one more by blast
qed

theorem parse_multi_dict_flattens_witness:
  "parse_multi_dict [(''x'', [JStr ''1'']), (''y'', [JStr ''1'', JStr ''2''])]
     = [(''x'', JStr ''1''), (''y'', JList [JStr ''1'', JStr ''2''])] \<and>
   map_of (parse_multi_dict [(''x'', [JStr ''1'']), (''y'', [JStr ''1'', JStr ''2''])]) ''x''
     = Some (JStr ''1'') \<and>
   map_of (parse_multi_dict [(''x'', [JStr ''1'']), (''y'', [JStr ''1'', JStr ''2''])]) ''y''
     = Some (JList [JStr ''1'', JStr ''2''])"
  using parse_multi_dict_flattens [of "[(''x'', [JStr ''1'']), (''y'', [JStr ''1'', JStr ''2''])]"]
  by (simp add: parse_multi_dict_def)

section \<open>Properties of \<open>parse_comments\<close>\<close>

lemma partition1_None: "sep \<notin> set s \<Longrightarrow> partition1 sep s = None"
  by (induction s) auto

lemma partition1_Some: "sep \<notin> set a \<Longrightarrow> partition1 sep (a @ sep # b) = Some (a, b)"
  by (induction a) auto

lemma rev_dropWhile_split:
  "xs = rev (dropWhile P (rev xs)) @ rev (takeWhile P (rev xs))"
proof -
  have "rev (rev xs) = rev (takeWhile P (rev xs) @ dropWhile P (rev xs))"
    by (simp only: takeWhile_dropWhile_id)
  then show ?thesis
    by (simp only: rev_append rev_rev_ident)
qed

lemma strip_decomp:
  "\<exists>l r. s = l @ strip s @ r \<and> (\<forall>c \<in> set l. isspace c) \<and> (\<forall>c \<in> set r. isspace c)"
proof -
  define m where "m = dropWhile isspace s"
  define l where "l = takeWhile isspace s"
  define r where "r = rev (takeWhile isspace (rev m))"
  have "s = l @ m" by (simp add: l_def m_def)
  moreover have "m = strip s @ r"
    using rev_dropWhile_split[of m isspace] by (simp add: strip_def r_def m_def)
  ultimately have "s = l @ strip s @ r" by simp
  moreover have "\<forall>c \<in> set l. isspace c"
    unfolding l_def by (auto dest: set_takeWhileD)
  moreover have "\<forall>c \<in> set r. isspace c"
    unfolding r_def by (auto dest: set_takeWhileD)
  ultimately show ?thesis by blast
qed

lemma strip_ends:
  assumes "strip s \<noteq> []"
  shows "\<not> isspace (hd (strip s)) \<and> \<not> isspace (last (strip s))"
proof -
  define m where "m = dropWhile isspace s"
  define t where "t = dropWhile isspace (rev m)"
  have st: "strip s = rev t" by (simp add: strip_def t_def m_def)
  have t: "t \<noteq> []" using assms st by simp
  have "\<not> isspace (hd t)" using t unfolding t_def by (rule hd_dropWhile)
  then have last: "\<not> isspace (last (strip s))"
    using t st by (simp add: last_rev)
  have m: "m \<noteq> []" using t unfolding t_def by (cases m) auto
  have hm: "\<not> isspace (hd m)" using m unfolding m_def by (rule hd_dropWhile)
  have "m = rev t @ rev (takeWhile isspace (rev m))"
    unfolding t_def by (rule rev_dropWhile_split)
  then have "hd m = hd (rev t @ rev (takeWhile isspace (rev m)))" by simp
  also have "\<dots> = hd (rev t)" using t by (simp add: hd_append)
  finally have "\<not> isspace (hd (strip s))" using hm st by simp
  then show ?thesis using last by simp
qed

lemma strip_example: "strip ''  Detail one '' = ''Detail one''"
  by (simp add: strip_def isspace_def)

text \<open>
  C7. Without documentation text \<open>parse_comments\<close> returns \<open>(None, None)\<close>. With a
  text that has no line feed it returns the text and \<open>None\<close>. With a text \<open>a\<close>, line
  feed, \<open>b\<close>, where \<open>a\<close> has no line feed, it returns \<open>a\<close> and \<open>b\<close> stripped:
  \<open>b\<close> without a longest run of white space at its start and at its end.
\<close>

theorem parse_comments_cases:
  "(getdoc func = None \<longrightarrow> parse_comments func = (None, None)) \<and>
   (getdoc func = Some doc \<and> newline \<notin> set doc \<longrightarrow>
      parse_comments func = (Some doc, None)) \<and>
   (getdoc func = Some (a @ newline # b) \<and> newline \<notin> set a \<longrightarrow>
      (\<exists>d l r. parse_comments func = (Some a, Some d) \<and> d = strip b \<and>
         b = l @ d @ r \<and> (\<forall>c \<in> set l. isspace c) \<and> (\<forall>c \<in> set r. isspace c) \<and>
         (d \<noteq> [] \<longrightarrow> \<not> isspace (hd d) \<and> \<not> isspace (last d))))"
proof (intro conjI impI)
  assume "getdoc func = None"
  then show "parse_comments func = (None, None)" by (simp add: parse_comments_def)
next
  assume "getdoc func = Some doc \<and> newline \<notin> set doc"
  then show "parse_comments func = (Some doc, None)"
    by (simp add: parse_comments_def split1_def partition1_None)
next
  assume h: "getdoc func = Some (a @ newline # b) \<and> newline \<notin> set a"
  then have p: "parse_comments func = (Some a, Some (strip b))"
    by (simp add: parse_comments_def split1_def partition1_Some)
  from strip_decomp[of b] obtain l r where
    "b = l @ strip b @ r" "\<forall>c \<in> set l. isspace c" "\<forall>c \<in> set r. isspace c" by blast
  then show "\<exists>d l r. parse_comments func = (Some a, Some d) \<and> d = strip b \<and>
         b = l @ d @ r \<and> (\<forall>c \<in> set l. isspace c) \<and> (\<forall>c \<in> set r. isspace c) \<and>
         (d \<noteq> [] \<longrightarrow> \<not> isspace (hd d) \<and> \<not> isspace (last d))"
    using p strip_ends[of b] by blast
qed

theorem parse_comments_cases_witness:
  "parse_comments \<lparr>attrs = Map.empty, getdoc = None\<rparr> = (None, None) \<and>
   parse_comments \<lparr>attrs = Map.empty, getdoc = Some ''Solo line''\<rparr> = (Some ''Solo line'', None) \<and>
   parse_comments \<lparr>attrs = Map.empty,
                   getdoc = Some (''Summary line'' @ newline # ''  Detail one '')\<rparr>
     = (Some ''Summary line'', Some ''Detail one'')"
proof -
  have 1: "parse_comments \<lparr>attrs = Map.empty, getdoc = None\<rparr> = (None, None)"
    using parse_comments_cases [of "\<lparr>attrs = Map.empty, getdoc = None\<rparr>"] by simp
  have 2: "parse_comments \<lparr>attrs = Map.empty, getdoc = Some ''Solo line''\<rparr>
             = (Some ''Solo line'', None)"
    using parse_comments_cases [of "\<lparr>attrs = Map.empty, getdoc = Some ''Solo line''\<rparr>" "''Solo line''"]
    by (simp add: newline_def)
  have 3: "parse_comments \<lparr>attrs = Map.empty,
                   getdoc = Some (''Summary line'' @ newline # ''  Detail one '')\<rparr>
     = (Some ''Summary line'', Some ''Detail one'')"
    using parse_comments_cases [of "\<lparr>attrs = Map.empty,
                   getdoc = Some (''Summary line'' @ newline # ''  Detail one '')\<rparr>"
                   _ "''Summary line''" "''  Detail one ''"]
    by (simp add: newline_def strip_example)
  show ?thesis using 1 2 3 by simp
qed

end
